theory Spec2Isabelle
  imports Main "HOL-Library.AList"
begin

section \<open>The file system, the environment and errors\<close>

text \<open>
  \<open>build_outputs.py\<close> works on \<open>pathlib\<close> paths. A path is absolute or
  relative and has a list of segments; \<open>parts\<close> counts the anchor of an absolute
  POSIX path as well, so \<open>Path('/a/b').parts = ('/', 'a', 'b')\<close>.
  \<open>resolve\<close> makes a path absolute and removes its \<open>.\<close> and \<open>..\<close>
  segments. The file-system operations themselves take the segments of a path as names:
  what they do on a path with a \<open>..\<close> segment, or through a symbolic link to a
  directory, is outside this model, and the theorems about clearing a directory are stated
  for paths without such segments.

  The file system is a tree. A directory keeps its entries in listing order; a symbolic
  link is a leaf (a dangling link: neither a file nor a directory).
\<close>

datatype path = Abs "string list" | Rel "string list"

datatype node = File string | Symlink | Dir "(string \<times> node) list"

datatype error = RuntimeError string | FileNotFoundError string | OSError string | ValueError string

datatype event = Ran "string list" | Warned string

text \<open>
  What the script cannot decide by itself is a parameter: the working directory, the
  entries whose removal the operating system refuses, the executables on the search
  path, the clock and the effect of an external command on the file system.
\<close>

record datetime =
  year :: nat
  month :: nat
  day :: nat
  hour :: nat
  minute :: nat
  second :: nat

record env =
  cwd :: "string list"
  deny :: "string list \<Rightarrow> bool"
  which :: "string \<Rightarrow> string option"
  now :: datetime
  tool :: "string list \<Rightarrow> node \<Rightarrow> int \<times> node"

record world =
  fs :: node
  trace :: "event list"

type_synonym 'a io = "world \<Rightarrow> (error + 'a) \<times> world"

definition ret :: "'a \<Rightarrow> 'a io" where
  "ret x w = (Inr x, w)"

definition raise :: "error \<Rightarrow> 'a io" where
  "raise e w = (Inl e, w)"

definition bind :: "'a io \<Rightarrow> ('a \<Rightarrow> 'b io) \<Rightarrow> 'b io" where
  "bind m f w = (case m w of (Inl e, w') \<Rightarrow> (Inl e, w') | (Inr x, w') \<Rightarrow> f x w')"

fun parts :: "path \<Rightarrow> string list" where
  "parts (Abs ss) = ''/'' # ss"
| "parts (Rel ss) = ss"

fun segments :: "path \<Rightarrow> string list" where
  "segments (Abs ss) = ss"
| "segments (Rel ss) = ss"

fun absolute :: "env \<Rightarrow> path \<Rightarrow> path" where
  "absolute E (Abs ss) = Abs ss"
| "absolute E (Rel ss) = Abs (cwd E @ ss)"

text \<open>
  \<open>Path.resolve\<close> on a path without symbolic links: \<open>..\<close> drops the segment
  before it (and nothing at the root), \<open>.\<close> and empty segments are dropped.
\<close>

definition normalise :: "string list \<Rightarrow> string list" where
  "normalise ss =
     foldl (\<lambda>acc s. if s = ''..'' then butlast acc
                     else if s = ''.'' \<or> s = [] then acc else acc @ [s]) [] ss"

definition resolve :: "env \<Rightarrow> path \<Rightarrow> path" where
  "resolve E p = Abs (normalise (segments (absolute E p)))"

fun joinpath :: "path \<Rightarrow> path \<Rightarrow> path" where
  "joinpath a (Abs ss) = Abs ss"
| "joinpath (Abs as) (Rel ss) = Abs (as @ ss)"
| "joinpath (Rel as) (Rel ss) = Rel (as @ ss)"

definition child :: "path \<Rightarrow> string \<Rightarrow> path" where
  "child p name = joinpath p (Rel [name])"

fun join_str :: "string \<Rightarrow> string list \<Rightarrow> string" where
  "join_str sep [] = []"
| "join_str sep [s] = s"
| "join_str sep (s # t # ss) = s @ sep @ join_str sep (t # ss)"

fun path_str :: "path \<Rightarrow> string" where
  "path_str (Abs ss) = ''/'' @ join_str ''/'' ss"
| "path_str (Rel ss) = (if ss = [] then ''.'' else join_str ''/'' ss)"

text \<open>The node at a list of segments below a node.\<close>

fun lookup :: "node \<Rightarrow> string list \<Rightarrow> node option" where
  "lookup n [] = Some n"
| "lookup (Dir es) (s # ss) = (case map_of es s of None \<Rightarrow> None | Some c \<Rightarrow> lookup c ss)"
| "lookup (File c) (s # ss) = None"
| "lookup Symlink (s # ss) = None"

fun modify :: "(node \<Rightarrow> node) \<Rightarrow> string list \<Rightarrow> node \<Rightarrow> node" where
  "modify f [] n = f n"
| "modify f (s # ss) (Dir es) =
     (case map_of es s of None \<Rightarrow> Dir es | Some c \<Rightarrow> Dir (AList.update s (modify f ss c) es))"
| "modify f (s # ss) (File c) = File c"
| "modify f (s # ss) Symlink = Symlink"

definition segs :: "env \<Rightarrow> path \<Rightarrow> string list" where
  "segs E p = segments (absolute E p)"

definition node_at :: "env \<Rightarrow> node \<Rightarrow> path \<Rightarrow> node option" where
  "node_at E r p = lookup r (segs E p)"

definition is_file :: "env \<Rightarrow> node \<Rightarrow> path \<Rightarrow> bool" where
  "is_file E r p = (case node_at E r p of Some (File c) \<Rightarrow> True | _ \<Rightarrow> False)"

definition is_symlink :: "env \<Rightarrow> node \<Rightarrow> path \<Rightarrow> bool" where
  "is_symlink E r p = (case node_at E r p of Some Symlink \<Rightarrow> True | _ \<Rightarrow> False)"

definition is_dir :: "env \<Rightarrow> node \<Rightarrow> path \<Rightarrow> bool" where
  "is_dir E r p = (case node_at E r p of Some (Dir es) \<Rightarrow> True | _ \<Rightarrow> False)"

definition exists :: "env \<Rightarrow> node \<Rightarrow> path \<Rightarrow> bool" where
  "exists E r p = (is_file E r p \<or> is_dir E r p)"

text \<open>
  \<open>Path.mkdir(parents=True, exist_ok=True)\<close>: missing directories are created along
  the path; a file or link in the way is an error.
\<close>

fun mkdirs :: "node \<Rightarrow> string list \<Rightarrow> node option" where
  "mkdirs (Dir es) [] = Some (Dir es)"
| "mkdirs (Dir es) (s # ss) =
     (case map_of es s of
        None \<Rightarrow> (case mkdirs (Dir []) ss of None \<Rightarrow> None | Some c \<Rightarrow> Some (Dir (es @ [(s, c)])))
      | Some c \<Rightarrow> (case mkdirs c ss of None \<Rightarrow> None | Some c' \<Rightarrow> Some (Dir (AList.update s c' es))))"
| "mkdirs (File c) ss = None"
| "mkdirs Symlink ss = None"

definition mkdir_p :: "env \<Rightarrow> path \<Rightarrow> unit io" where
  "mkdir_p E p w =
     (case mkdirs (fs w) (segs E p) of
        None \<Rightarrow> (Inl (OSError (''cannot create directory: '' @ path_str p)), w)
      | Some r \<Rightarrow> (Inr (), w\<lparr>fs := r\<rparr>))"

text \<open>\<open>Path.iterdir\<close>: the names in a directory, in listing order.\<close>

definition iterdir :: "env \<Rightarrow> path \<Rightarrow> string list io" where
  "iterdir E p w =
     (case node_at E (fs w) p of
        Some (Dir es) \<Rightarrow> (Inr (map fst es), w)
      | _ \<Rightarrow> (Inl (OSError (''not a directory: '' @ path_str p)), w))"

definition del_child :: "string \<Rightarrow> node \<Rightarrow> node" where
  "del_child s n = (case n of Dir es \<Rightarrow> Dir (AList.delete s es) | _ \<Rightarrow> n)"

definition remove_node :: "env \<Rightarrow> path \<Rightarrow> node \<Rightarrow> node" where
  "remove_node E p r =
     (let ss = segs E p in if ss = [] then r else modify (del_child (last ss)) (butlast ss) r)"

text \<open>
  \<open>Path.unlink(missing_ok)\<close> fails when the operating system refuses the removal
  (\<open>deny\<close>), and leaves the entry as it was.
\<close>

definition unlink :: "env \<Rightarrow> bool \<Rightarrow> path \<Rightarrow> unit io" where
  "unlink E missing_ok p w =
     (if node_at E (fs w) p = None then
        (if missing_ok then (Inr (), w)
         else (Inl (FileNotFoundError (path_str p)), w))
      else if is_dir E (fs w) p \<or> deny E (segs E p) then
        (Inl (OSError (''cannot remove: '' @ path_str p)), w)
      else (Inr (), w\<lparr>fs := remove_node E p (fs w)\<rparr>))"

text \<open>
  \<open>shutil.rmtree\<close> removes the entries of a directory one by one, in listing order
  and depth first, then the directory itself, and stops at the first removal the system
  refuses: what it has removed by then stays removed. \<open>rm_tree\<close> gives what is left of
  a node (\<open>None\<close> when all of it is gone), \<open>rm_entries\<close> what is left of the entries
  of a directory (nothing when all are gone).
\<close>

fun rm_tree :: "(string list \<Rightarrow> bool) \<Rightarrow> string list \<Rightarrow> node \<Rightarrow> node option"
  and rm_entries ::
    "(string list \<Rightarrow> bool) \<Rightarrow> string list \<Rightarrow> (string \<times> node) list \<Rightarrow> (string \<times> node) list" where
  "rm_tree d q (File c) = (if d q then Some (File c) else None)"
| "rm_tree d q Symlink = (if d q then Some Symlink else None)"
| "rm_tree d q (Dir es) =
     (case rm_entries d q es of
        [] \<Rightarrow> if d q then Some (Dir []) else None
      | e # es' \<Rightarrow> Some (Dir (e # es')))"
| "rm_entries d q [] = []"
| "rm_entries d q ((k, c) # es) =
     (case rm_tree d (q @ [k]) c of
        None \<Rightarrow> rm_entries d q es
      | Some c' \<Rightarrow> (k, c') # es)"

definition rmtree :: "env \<Rightarrow> path \<Rightarrow> unit io" where
  "rmtree E p w =
     (case node_at E (fs w) p of
        Some (Dir es) \<Rightarrow>
          (case rm_tree (deny E) (segs E p) (Dir es) of
             None \<Rightarrow> (Inr (), w\<lparr>fs := remove_node E p (fs w)\<rparr>)
           | Some n \<Rightarrow> (Inl (OSError (''cannot remove: '' @ path_str p)),
                        w\<lparr>fs := modify (\<lambda>_. n) (segs E p) (fs w)\<rparr>))
      | _ \<Rightarrow> (Inl (OSError (''cannot remove: '' @ path_str p)), w))"

section \<open>Clearing a directory\<close>

text \<open>
  \<open>clear_dir\<close>: the directory is created first, then the guard on the number of
  parts of the resolved path, then one removal per entry, each in its own
  \<open>try\<close>: a failed removal prints a warning and the loop goes on.
\<close>

definition remove_entry :: "env \<Rightarrow> path \<Rightarrow> unit io" where
  "remove_entry E entry w =
     (if is_file E (fs w) entry \<or> is_symlink E (fs w) entry
      then unlink E True entry w
      else rmtree E entry w)"

fun clear_entries :: "env \<Rightarrow> path \<Rightarrow> string list \<Rightarrow> world \<Rightarrow> world" where
  "clear_entries E p [] w = w"
| "clear_entries E p (e # es) w =
     clear_entries E p es
       (case remove_entry E (child p e) w of
          (Inl err, w') \<Rightarrow> w'\<lparr>trace := trace w' @ [Warned (path_str (child p e))]\<rparr>
        | (Inr u, w') \<Rightarrow> w')"

definition clear_dir :: "env \<Rightarrow> path \<Rightarrow> unit io" where
  "clear_dir E p =
     bind (mkdir_p E p) (\<lambda>_.
       if length (parts (resolve E p)) < 3
       then raise (RuntimeError (''Refusing to clear very shallow path: '' @ path_str p))
       else bind (iterdir E p) (\<lambda>names w. (Inr (), clear_entries E p names w)))"


section \<open>Strings\<close>

text \<open>
  Python strings are modelled as ASCII strings. \<open>str.lower\<close>, \<open>str.strip\<close>
  (Python's ASCII white space) and decimal formatting.
\<close>

definition ascii_upper :: string where
  "ascii_upper = ''ABCDEFGHIJKLMNOPQRSTUVWXYZ''"

definition ascii_lower :: string where
  "ascii_lower = ''abcdefghijklmnopqrstuvwxyz''"

definition ascii_digits :: string where
  "ascii_digits = ''0123456789''"

definition lower_char :: "char \<Rightarrow> char" where
  "lower_char c = (case map_of (zip ascii_upper ascii_lower) c of Some l \<Rightarrow> l | None \<Rightarrow> c)"

definition lower :: "string \<Rightarrow> string" where
  "lower s = map lower_char s"

definition is_space :: "char \<Rightarrow> bool" where
  "is_space c = (c \<in> set [CHR 0x09, CHR 0x0A, CHR 0x0B, CHR 0x0C, CHR 0x0D,
                          CHR 0x1C, CHR 0x1D, CHR 0x1E, CHR 0x1F, CHR '' ''])"

definition strip :: "string \<Rightarrow> string" where
  "strip s = rev (dropWhile is_space (rev (dropWhile is_space s)))"

fun digits :: "nat \<Rightarrow> string" where
  "digits n = (if n < 10 then [ascii_digits ! n] else digits (n div 10) @ [ascii_digits ! (n mod 10)])"

declare digits.simps [simp del]

definition zero_pad :: "nat \<Rightarrow> nat \<Rightarrow> string" where
  "zero_pad width n = replicate (width - length (digits n)) CHR ''0'' @ digits n"

definition show_int :: "int \<Rightarrow> string" where
  "show_int i = (if i < 0 then ''-'' @ digits (nat (- i)) else digits (nat i))"

text \<open>A truthy optional string: neither \<open>None\<close> nor empty.\<close>

definition truthy :: "string option \<Rightarrow> bool" where
  "truthy v = (case v of None \<Rightarrow> False | Some s \<Rightarrow> s \<noteq> [])"

section \<open>Path names\<close>

fun split_on :: "char \<Rightarrow> string \<Rightarrow> string list" where
  "split_on c [] = [[]]"
| "split_on c (x # xs) =
     (if x = c then [] # split_on c xs
      else (case split_on c xs of [] \<Rightarrow> [[x]] | h # t \<Rightarrow> (x # h) # t))"

text \<open>\<open>Path(s)\<close>: empty segments and \<open>.\<close> segments are dropped.\<close>

definition parse_path :: "string \<Rightarrow> path" where
  "parse_path s =
     (let ss = filter (\<lambda>x. x \<noteq> [] \<and> x \<noteq> ''.'') (split_on CHR ''/'' s)
      in case s of [] \<Rightarrow> Rel ss | c # _ \<Rightarrow> if c = CHR ''/'' then Abs ss else Rel ss)"

text \<open>The operator \<open>/\<close> with a string on the right.\<close>

definition div_str :: "path \<Rightarrow> string \<Rightarrow> path" where
  "div_str p s = joinpath p (parse_path s)"

fun with_segments :: "path \<Rightarrow> string list \<Rightarrow> path" where
  "with_segments (Abs _) ss = Abs ss"
| "with_segments (Rel _) ss = Rel ss"

definition name :: "path \<Rightarrow> string" where
  "name p = (case segments p of [] \<Rightarrow> [] | ss \<Rightarrow> last ss)"

text \<open>
  \<open>PurePath.suffix\<close>: from the last dot of the name, unless that dot is the first or
  the last character.
\<close>

definition suffix_of :: "string \<Rightarrow> string" where
  "suffix_of nm =
     (if CHR ''.'' \<notin> set nm then []
      else let i = length nm - length (takeWhile (\<lambda>c. c \<noteq> CHR ''.'') (rev nm)) - 1
           in if 0 < i \<and> i < length nm - 1 then drop i nm else [])"

definition suffix :: "path \<Rightarrow> string" where
  "suffix p = suffix_of (name p)"

definition stem :: "path \<Rightarrow> string" where
  "stem p = (let nm = name p in take (length nm - length (suffix_of nm)) nm)"

definition with_name :: "path \<Rightarrow> string \<Rightarrow> error + path" where
  "with_name p nm =
     (if name p = [] then Inl (ValueError ''empty name'')
      else Inr (with_segments p (butlast (segments p) @ [nm])))"

definition with_suffix :: "path \<Rightarrow> string \<Rightarrow> error + path" where
  "with_suffix p suf =
     (if name p = [] then Inl (ValueError ''empty name'')
      else Inr (with_segments p (butlast (segments p) @ [stem p @ suf])))"

section \<open>Files, directories and external commands\<close>

definition ensure_dir :: "env \<Rightarrow> path \<Rightarrow> path io" where
  "ensure_dir E p = bind (mkdir_p E p) (\<lambda>_. ret p)"

definition set_child :: "string \<Rightarrow> node \<Rightarrow> node \<Rightarrow> node" where
  "set_child s c n = (case n of Dir es \<Rightarrow> Dir (AList.update s c es) | _ \<Rightarrow> n)"

text \<open>
  \<open>Path.write_text\<close>: the parent must be a directory and the path must not be one.
  A write to a link is recorded at the link's own path.
\<close>

definition write_text :: "env \<Rightarrow> path \<Rightarrow> string \<Rightarrow> unit io" where
  "write_text E p content w =
     (let ss = segs E p in
      if ss = [] \<or> is_dir E (fs w) p then
        (Inl (OSError (''is a directory: '' @ path_str p)), w)
      else (case lookup (fs w) (butlast ss) of
              Some (Dir es) \<Rightarrow>
                (Inr (), w\<lparr>fs := modify (set_child (last ss) (File content)) (butlast ss) (fs w)\<rparr>)
            | _ \<Rightarrow> (Inl (FileNotFoundError (path_str p)), w)))"

text \<open>
  \<open>read_text_flexible\<close>: the text of a file. The choice among the encodings is not
  modelled: a file holds its text.
\<close>

definition read_text_flexible :: "env \<Rightarrow> path \<Rightarrow> string io" where
  "read_text_flexible E p w =
     (case node_at E (fs w) p of
        Some (File c) \<Rightarrow> (Inr c, w)
      | _ \<Rightarrow> (Inl (OSError (''cannot read: '' @ path_str p)), w))"

text \<open>
  \<open>run\<close>: the command is executed, and an exit code outside \<open>ok_codes\<close> is an
  error.
\<close>

definition run :: "env \<Rightarrow> string list \<Rightarrow> int list \<Rightarrow> unit io" where
  "run E cmd ok_codes w =
     (let (rc, r) = tool E cmd (fs w);
          w' = w\<lparr>fs := r, trace := trace w @ [Ran cmd]\<rparr>
      in if rc \<in> set ok_codes then (Inr (), w')
         else (Inl (RuntimeError (''Command failed with code '' @ show_int rc)), w'))"

definition timestamp_tag :: "env \<Rightarrow> string" where
  "timestamp_tag E =
     (let t = now E
      in zero_pad 4 (year t) @ zero_pad 2 (month t) @ zero_pad 2 (day t) @ ''_'' @
         zero_pad 2 (hour t) @ zero_pad 2 (minute t))"

section \<open>Locating the tools\<close>

definition win_default :: path where
  "win_default =
     parse_path (''C:'' @ [CHR 0x5C] @ ''Program Files'' @ [CHR 0x5C] @ ''KiCad'' @ [CHR 0x5C] @
                 ''9.0'' @ [CHR 0x5C] @ ''bin'' @ [CHR 0x5C] @ ''kicad-cli.exe'')"

definition which_kicad_cli :: "env \<Rightarrow> string io" where
  "which_kicad_cli E w =
     (if truthy (which E ''kicad-cli'') then (Inr (the (which E ''kicad-cli'')), w)
      else if exists E (fs w) win_default then (Inr (path_str win_default), w)
      else (Inl (FileNotFoundError
             ''kicad-cli not found on PATH and not at default KiCad 9 location.''), w))"

definition find_kicad_python_from_kicad_cli :: "env \<Rightarrow> string \<Rightarrow> string io" where
  "find_kicad_python_from_kicad_cli E kicad_cli_path w =
     (let kcli = parse_path kicad_cli_path in
      case with_name kcli ''python.exe'' of
        Inl e \<Rightarrow> (Inl e, w)
      | Inr cand \<Rightarrow>
          if exists E (fs w) cand then (Inr (path_str cand), w)
          else (case with_name kcli ''python'' of
                  Inl e \<Rightarrow> (Inl e, w)
                | Inr cand2 \<Rightarrow>
                    if exists E (fs w) cand2 then (Inr (path_str cand2), w)
                    else if truthy (which E ''python'') then (Inr (the (which E ''python'')), w)
                    else if truthy (which E ''python3'') then (Inr (the (which E ''python3'')), w)
                    else (Inl (FileNotFoundError
                           ''Could not locate a Python interpreter to run KiKit.''), w)))"

definition project_paths :: "env \<Rightarrow> path \<Rightarrow> (string \<times> path \<times> path) io" where
  "project_paths E project_file w =
     (case (if lower (suffix project_file) = ''.kicad_pro''
            then with_suffix project_file [] else Inr project_file) of
        Inl e \<Rightarrow> (Inl e, w)
      | Inr stm \<Rightarrow>
          (case with_suffix stm ''.kicad_sch'' of
             Inl e \<Rightarrow> (Inl e, w)
           | Inr sch \<Rightarrow>
               (case with_suffix stm ''.kicad_pcb'' of
                  Inl e \<Rightarrow> (Inl e, w)
                | Inr pcb \<Rightarrow>
                    if \<not> exists E (fs w) sch then
                      (Inl (FileNotFoundError (''Schematic not found: '' @ path_str sch)), w)
                    else if \<not> exists E (fs w) pcb then
                      (Inl (FileNotFoundError (''Board not found: '' @ path_str pcb)), w)
                    else (Inr (name stm, sch, pcb), w))))"

section \<open>The export steps\<close>

definition step_cmd :: "string \<Rightarrow> path \<Rightarrow> path \<Rightarrow> string list" where
  "step_cmd kicad step_out pcb_path =
     [kicad, ''pcb'', ''export'', ''step'', ''--subst-models'', ''-o'', path_str step_out,
      path_str pcb_path]"

definition glb_cmd :: "string \<Rightarrow> path \<Rightarrow> path \<Rightarrow> string list" where
  "glb_cmd kicad glb_out pcb_path =
     [kicad, ''pcb'', ''export'', ''glb'', ''--subst-models'', ''-o'', path_str glb_out,
      path_str pcb_path]"

definition export_3d :: "env \<Rightarrow> string \<Rightarrow> path \<Rightarrow> path \<Rightarrow> bool \<Rightarrow> path io" where
  "export_3d E kicad pcb_path out_dir make_glb =
     bind (ensure_dir E out_dir) (\<lambda>_.
     let step_out = div_str out_dir (stem pcb_path @ ''.step'') in
     bind (run E (step_cmd kicad step_out pcb_path) [0, 2]) (\<lambda>_ w.
       if \<not> exists E (fs w) step_out
       then (Inl (RuntimeError ''STEP export did not produce a file.''), w)
       else if make_glb
       then (let glb_out = div_str out_dir (stem pcb_path @ ''.glb'')
             in bind (run E (glb_cmd kicad glb_out pcb_path) [0, 2]) (\<lambda>_. ret step_out) w)
       else (Inr step_out, w)))"

definition render_cmd :: "string \<Rightarrow> path \<Rightarrow> string \<Rightarrow> path \<Rightarrow> string list" where
  "render_cmd kicad out side pcb_path =
     [kicad, ''pcb'', ''render'', ''-o'', path_str out, ''--side'', side,
      ''--background'', ''transparent'', path_str pcb_path]"

definition export_pictures :: "env \<Rightarrow> string \<Rightarrow> path \<Rightarrow> path \<Rightarrow> bool \<Rightarrow> path list io" where
  "export_pictures E kicad pcb_path out_dir with_iso =
     bind (ensure_dir E out_dir) (\<lambda>_.
     let top_png = div_str out_dir (stem pcb_path @ ''_top.png'');
         bot_png = div_str out_dir (stem pcb_path @ ''_bottom.png'');
         side_png = div_str out_dir (stem pcb_path @ ''_side.png'') in
     bind (run E (render_cmd kicad top_png ''top'' pcb_path) [0]) (\<lambda>_.
     bind (run E (render_cmd kicad bot_png ''bottom'' pcb_path) [0]) (\<lambda>_.
     bind (run E (render_cmd kicad side_png ''left'' pcb_path) [0]) (\<lambda>_.
       if with_iso
       then (let iso_out = div_str out_dir (stem pcb_path @ ''_iso.png'')
             in bind (run E [kicad, ''pcb'', ''render'', ''-o'', path_str iso_out,
                             ''--background'', ''transparent'', ''--perspective'',
                             ''--rotate'', [CHR 0x27] @ ''-45,0,45'' @ [CHR 0x27],
                             ''--zoom'', ''1'', path_str pcb_path] [0])
                  (\<lambda>_. ret [top_png, bot_png, side_png, iso_out]))
       else ret [top_png, bot_png, side_png]))))"

definition doc_layers :: string where
  "doc_layers = join_str '','' [''F.Cu'', ''B.Cu'', ''F.SilkS'', ''B.SilkS'', ''F.Mask'',
     ''B.Mask'', ''Edge.Cuts'', ''F.Fab'', ''B.Fab'', ''User.Drawings'']"

definition export_docs ::
  "env \<Rightarrow> string \<Rightarrow> path \<Rightarrow> path \<Rightarrow> path \<Rightarrow> bool \<Rightarrow> (path \<times> path \<times> path \<times> path option) io" where
  "export_docs E kicad sch_path pcb_path out_dir include_drc =
     bind (ensure_dir E out_dir) (\<lambda>_.
     let sch_pdf = div_str out_dir (stem sch_path @ ''_schematic.pdf'');
         erc_rpt = div_str out_dir (stem sch_path @ ''_erc.rpt'');
         board_pdf = div_str out_dir (stem pcb_path @ ''_board_prints.pdf'') in
     bind (run E [kicad, ''sch'', ''export'', ''pdf'', ''-o'', path_str sch_pdf,
                  path_str sch_path] [0]) (\<lambda>_.
     bind (run E [kicad, ''sch'', ''erc'', ''-o'', path_str erc_rpt, path_str sch_path] [0]) (\<lambda>_.
     bind (run E [kicad, ''pcb'', ''export'', ''pdf'', ''-o'', path_str board_pdf,
                  ''--layers'', doc_layers, ''--mode-multipage'', path_str pcb_path] [0]) (\<lambda>_.
       if include_drc
       then (let drc_rpt = div_str out_dir (stem pcb_path @ ''_drc.rpt'')
             in bind (run E [kicad, ''pcb'', ''drc'', ''-o'', path_str drc_rpt,
                             ''--format'', ''report'', path_str pcb_path] [0])
                  (\<lambda>_. ret (sch_pdf, erc_rpt, board_pdf, Some drc_rpt)))
       else ret (sch_pdf, erc_rpt, board_pdf, None)))))"

text \<open>
  \<open>zip_dir\<close>: the archive lists what \<open>rglob\<close> finds below the directory. The
  compressed bytes are not modelled: the archive file holds the archived names.
\<close>

fun rglob :: "node \<Rightarrow> string list list"
  and rglob_entries :: "(string \<times> node) list \<Rightarrow> string list list" where
  "rglob (Dir es) = rglob_entries es"
| "rglob (File c) = []"
| "rglob Symlink = []"
| "rglob_entries [] = []"
| "rglob_entries ((k, c) # es) = [k] # map ((#) k) (rglob c) @ rglob_entries es"

definition zip_dir :: "env \<Rightarrow> path \<Rightarrow> path \<Rightarrow> unit io" where
  "zip_dir E src_dir zip_path w =
     write_text E zip_path
       (join_str [CHR 0x0A]
          (map (join_str ''/'') (case node_at E (fs w) src_dir of None \<Rightarrow> [] | Some n \<Rightarrow> rglob n)))
       w"

definition export_fab ::
  "env \<Rightarrow> string \<Rightarrow> path \<Rightarrow> path \<Rightarrow> path \<Rightarrow> bool \<Rightarrow>
   (path \<times> path \<times> path \<times> path \<times> path option) io" where
  "export_fab E kicad sch_path pcb_path out_dir zip_outputs =
     bind (ensure_dir E out_dir) (\<lambda>root.
     bind (ensure_dir E (child root ''gerbers'')) (\<lambda>gerb_dir.
     bind (ensure_dir E (child root ''drill'')) (\<lambda>drill_dir.
     bind (run E [kicad, ''pcb'', ''export'', ''gerbers'', ''-o'', path_str gerb_dir,
                  ''--board-plot-params'', path_str pcb_path] [0]) (\<lambda>_.
     bind (run E [kicad, ''pcb'', ''export'', ''drill'', ''-o'', path_str drill_dir,
                  ''--format'', ''excellon'', ''--generate-map'', path_str pcb_path] [0]) (\<lambda>_.
     let pos_csv = div_str root (stem pcb_path @ ''_pos.csv'') in
     bind (run E [kicad, ''pcb'', ''export'', ''pos'', ''-o'', path_str pos_csv,
                  ''--format'', ''csv'', ''--units'', ''mm'', ''--side'', ''both'',
                  path_str pcb_path] [0]) (\<lambda>_.
     let bom_csv = div_str root (stem sch_path @ ''_bom.csv'') in
     bind (run E [kicad, ''sch'', ''export'', ''bom'', ''-o'', path_str bom_csv,
                  ''--fields'',
                  ''Reference,Value,Footprint,${QUANTITY},Manufacturer,MPN,Datasheet,${DNP}'',
                  ''--labels'', ''Refs,Value,Footprint,Qty,Manufacturer,MPN,Datasheet,DNP'',
                  ''--group-by'', ''Value,Footprint,MPN'', path_str sch_path] [0]) (\<lambda>_.
       if zip_outputs
       then (let zip_path = div_str root (stem pcb_path @ ''_gerbers.zip'')
             in bind (\<lambda>w. if exists E (fs w) zip_path
                           then (Inr (), snd (unlink E False zip_path w))
                           else (Inr (), w)) (\<lambda>_.
                bind (zip_dir E gerb_dir zip_path) (\<lambda>_.
                ret (gerb_dir, drill_dir, pos_csv, bom_csv, Some zip_path))))
       else ret (gerb_dir, drill_dir, pos_csv, bom_csv, None))))))))"

section \<open>Vendor packaging\<close>

definition vendor_ok_char :: "char \<Rightarrow> bool" where
  "vendor_ok_char c = (c \<in> set (ascii_upper @ ascii_lower @ ascii_digits @ ''_.-''))"

text \<open>\<open>re.sub(r'[^A-Za-z0-9_.-]+', '-', s)\<close>: each maximal run becomes one dash.\<close>

function squash_runs :: "string \<Rightarrow> string" where
  "squash_runs [] = []"
| "squash_runs (c # cs) =
     (if vendor_ok_char c then c # squash_runs cs
      else CHR ''-'' # squash_runs (dropWhile (\<lambda>x. \<not> vendor_ok_char x) cs))"
  by pat_completeness auto
termination
  by (relation "measure length") (auto simp: le_imp_less_Suc length_dropWhile_le)

definition sanitize_vendor :: "string \<Rightarrow> string" where
  "sanitize_vendor v = squash_runs (lower (strip v))"

definition vendor_root_path :: "path \<Rightarrow> string \<Rightarrow> path" where
  "vendor_root_path out_dir vendor = div_str out_dir (lower vendor @ ''_production'')"

text \<open>
  The loop of \<open>run_kikit_fab\<close> over the entries of the vendor folder: no
  \<open>try\<close>, so the first failed removal ends it.
\<close>

fun kikit_clean :: "env \<Rightarrow> path \<Rightarrow> string list \<Rightarrow> unit io" where
  "kikit_clean E p [] = ret ()"
| "kikit_clean E p (e # es) =
     bind (\<lambda>w. if is_file E (fs w) (child p e) \<or> is_symlink E (fs w) (child p e)
               then unlink E False (child p e) w
               else rmtree E (child p e) w)
          (\<lambda>_. kikit_clean E p es)"

definition kikit_cmd ::
  "string \<Rightarrow> string \<Rightarrow> path \<Rightarrow> path \<Rightarrow> path \<Rightarrow> string \<Rightarrow> string list" where
  "kikit_cmd python vendor sch_path pcb_path vendor_root order_field =
     [python, ''-m'', ''kikit.ui'', ''fab'', vendor, ''--assembly'', ''--schematic'',
      path_str sch_path] @
     (if order_field \<noteq> [] then [''--field'', order_field] else []) @
     [path_str pcb_path, path_str vendor_root]"

definition run_kikit_fab ::
  "env \<Rightarrow> string \<Rightarrow> path \<Rightarrow> path \<Rightarrow> path \<Rightarrow> string option \<Rightarrow> bool \<Rightarrow> path io" where
  "run_kikit_fab E vendor pcb_path sch_path out_dir order_field clean =
     (let field = (case order_field of
                     None \<Rightarrow> if lower vendor = ''jlcpcb'' then ''LCSC'' else ''MPN''
                   | Some f \<Rightarrow> f)
      in if \<not> truthy (which E ''python'')
         then raise (FileNotFoundError ''Python interpreter not found on PATH.'')
         else
           bind (ensure_dir E (vendor_root_path out_dir vendor)) (\<lambda>vendor_root.
           bind (if clean
                 then bind (iterdir E vendor_root) (kikit_clean E vendor_root)
                 else ret ()) (\<lambda>_.
           bind (run E (kikit_cmd (the (which E ''python'')) vendor sch_path pcb_path
                          vendor_root field) [0]) (\<lambda>_.
           ret (child vendor_root ''gerbers.zip'')))))"

section \<open>The summary document\<close>

text \<open>
  \<open>string.Template.safe_substitute\<close> with the default pattern: at a dollar sign,
  \<open>$$\<close> is an escape, \<open>$name\<close> and \<open>${name}\<close> are placeholders (an ASCII
  identifier), any other dollar sign stands for itself.
\<close>

definition is_id_start :: "char \<Rightarrow> bool" where
  "is_id_start c = (c = CHR ''_'' \<or> c \<in> set ascii_lower \<or> c \<in> set ascii_upper)"

definition is_id_char :: "char \<Rightarrow> bool" where
  "is_id_char c = (is_id_start c \<or> c \<in> set ascii_digits)"

datatype token = Lit char | Escaped | Named string | Braced string | Invalid

function scan :: "string \<Rightarrow> token list" where
  "scan [] = []"
| "scan (c # cs) =
     (if c \<noteq> CHR ''$'' then Lit c # scan cs
      else case cs of
        [] \<Rightarrow> [Invalid]
      | d # ds \<Rightarrow>
          if d = CHR ''$'' then Escaped # scan ds
          else if is_id_start d
          then Named (takeWhile is_id_char cs) # scan (dropWhile is_id_char cs)
          else if d = CHR ''{'' \<and> (case ds of [] \<Rightarrow> False | e # _ \<Rightarrow> is_id_start e)
          then (case dropWhile is_id_char ds of
                  [] \<Rightarrow> Invalid # scan cs
                | x # rest \<Rightarrow>
                    if x = CHR ''}'' then Braced (takeWhile is_id_char ds) # scan rest
                    else Invalid # scan cs)
          else Invalid # scan cs)"
  by pat_completeness auto
termination
  apply (relation "measure length")
  apply (auto simp: le_imp_less_Suc length_dropWhile_le)
  subgoal for d ds using length_dropWhile_le [of is_id_char ds] by simp
  subgoal for ds rest using length_dropWhile_le [of is_id_char ds] by simp
  done

fun token_text :: "token \<Rightarrow> string" where
  "token_text (Lit c) = [c]"
| "token_text Escaped = ''$$''"
| "token_text (Named n) = ''$'' @ n"
| "token_text (Braced n) = ''${'' @ n @ ''}''"
| "token_text Invalid = ''$''"

fun render :: "(string \<rightharpoonup> string) \<Rightarrow> token \<Rightarrow> string" where
  "render m (Lit c) = [c]"
| "render m Escaped = ''$''"
| "render m (Named n) = (case m n of Some v \<Rightarrow> v | None \<Rightarrow> ''$'' @ n)"
| "render m (Braced n) = (case m n of Some v \<Rightarrow> v | None \<Rightarrow> ''${'' @ n @ ''}'')"
| "render m Invalid = ''$''"

definition safe_substitute :: "string \<Rightarrow> (string \<times> string) list \<Rightarrow> string" where
  "safe_substitute tpl subs = concat (map (render (map_of subs)) (scan tpl))"

definition DEFAULT_README_TEMPLATE :: string where
  "DEFAULT_README_TEMPLATE = concat (map (\<lambda>l. l @ [CHR 0x0A])
     [''# ${PROJECT_NAME}'',
      '''',
      ''![HEADER](./PICTURES/${HEADER_IMAGE}) <!-- 3D rendered pretty view -->'',
      '''',
      ''INFO INFO'',
      '''',
      ''[PCB layout](./DOCUMENTATION/${PCBLAYOUT_PDF}) <!-- PDFs of boards -->'',
      ''[SCHEMATIC](./DOCUMENTATION/${SCHEMATIC_PDF}) <!-- Schematic PDFs -->'',
      '''',
      ''## FRONT'',
      ''![Front](./PICTURES/${PICTURE_FRONT})'',
      '''',
      ''## BACK'',
      ''![Back](./PICTURES/${PICTURE_BACK})'',
      '''',
      ''## SIDE'',
      ''![Side](./PICTURES/${PICTURE_SIDE})'',
      '''',
      ''# Before major commmits'',
      ''Remember to run generate_outputs.bat/sh'',
      ''to update the outputs and pictures.''])"

definition header_image :: "env \<Rightarrow> node \<Rightarrow> path \<Rightarrow> string \<Rightarrow> string" where
  "header_image E r root project_name =
     (if exists E r (div_str (child root ''PICTURES'') (project_name @ ''_iso.png''))
      then project_name @ ''_iso.png'' else project_name @ ''_top.png'')"

definition readme_subs :: "string \<Rightarrow> string \<Rightarrow> (string \<times> string) list" where
  "readme_subs project_name header =
     [(''PROJECT_NAME'', project_name),
      (''HEADER_IMAGE'', header),
      (''PCBLAYOUT_PDF'', project_name @ ''_board_prints.pdf''),
      (''SCHEMATIC_PDF'', project_name @ ''_schematic.pdf''),
      (''PICTURE_FRONT'', project_name @ ''_top.png''),
      (''PICTURE_BACK'', project_name @ ''_bottom.png''),
      (''PICTURE_SIDE'', project_name @ ''_side.png''),
      (''EXTRA_IMAGE'', header)]"

definition render_readme_if_missing :: "env \<Rightarrow> path \<Rightarrow> string \<Rightarrow> path io" where
  "render_readme_if_missing E root project_name w =
     (let out_path = child root ''README.md'' in
      if exists E (fs w) out_path then (Inr out_path, w)
      else
        bind (if exists E (fs w) (child root ''README.template.md'')
              then read_text_flexible E (child root ''README.template.md'')
              else ret DEFAULT_README_TEMPLATE) (\<lambda>tpl_text.
        bind (\<lambda>w1. write_text E out_path
                (safe_substitute tpl_text
                   (readme_subs project_name (header_image E (fs w1) root project_name))) w1)
          (\<lambda>_. ret out_path)) w)"

section \<open>The run\<close>

record args =
  arg_project :: string
  arg_root :: string
  arg_prod_dir :: string
  arg_iso :: bool
  arg_glb :: bool
  arg_zip :: bool
  arg_kikit :: "string option"
  arg_skip_drc :: bool
  arg_no_timestamp :: bool

text \<open>
  The production folder of a run: \<open>PRODUCTION/<project>\<close>, cleared, with
  \<open>--no-timestamp\<close>, and \<open>PRODUCTION/<timestamp>_<project>\<close> otherwise.
\<close>

definition production_root :: "env \<Rightarrow> args \<Rightarrow> path \<Rightarrow> string \<Rightarrow> path io" where
  "production_root E a root proj_stem =
     (if arg_no_timestamp a
      then bind (ensure_dir E (div_str (div_str root (arg_prod_dir a)) proj_stem)) (\<lambda>prod_root.
           bind (clear_dir E prod_root) (\<lambda>_. ret prod_root))
      else ensure_dir E (div_str (div_str root (arg_prod_dir a))
                           (timestamp_tag E @ ''_'' @ proj_stem)))"

text \<open>What \<open>main\<close> does before the first export step.\<close>

definition main_setup ::
  "env \<Rightarrow> args \<Rightarrow> (string \<times> string \<times> path \<times> path \<times> path \<times> path \<times> path \<times> path \<times> path) io" where
  "main_setup E a =
     bind (which_kicad_cli E) (\<lambda>kicad.
     bind (project_paths E (parse_path (arg_project a))) (\<lambda>(proj_stem, sch_path, pcb_path).
     let root = resolve E (parse_path (arg_root a)) in
     bind (ensure_dir E (child root ''3D_MODEL'')) (\<lambda>three_d_dir.
     bind (ensure_dir E (child root ''PICTURES'')) (\<lambda>pics_dir.
     bind (ensure_dir E (child root ''DOCUMENTATION'')) (\<lambda>docs_dir.
     bind (production_root E a root proj_stem) (\<lambda>prod_root.
     ret (kicad, proj_stem, sch_path, pcb_path, root, three_d_dir, pics_dir, docs_dir,
          prod_root)))))))"

definition main :: "env \<Rightarrow> args \<Rightarrow> unit io" where
  "main E a =
     bind (main_setup E a)
       (\<lambda>(kicad, proj_stem, sch_path, pcb_path, root, three_d_dir, pics_dir, docs_dir, prod_root).
     bind (export_3d E kicad pcb_path three_d_dir (arg_glb a)) (\<lambda>_.
     bind (export_pictures E kicad pcb_path pics_dir (arg_iso a)) (\<lambda>_.
     bind (export_docs E kicad sch_path pcb_path docs_dir (\<not> arg_skip_drc a)) (\<lambda>_.
     bind (export_fab E kicad sch_path pcb_path prod_root (arg_zip a)) (\<lambda>_.
     bind (if truthy (arg_kikit a)
           then bind (run_kikit_fab E (the (arg_kikit a)) pcb_path sch_path prod_root None True)
                  (\<lambda>_. ret ())
           else ret ()) (\<lambda>_.
     bind (render_readme_if_missing E root proj_stem) (\<lambda>_. ret ())))))))"

section \<open>Definitions used in the statements\<close>

text \<open>
  What is left of the entries of a directory after the loop of \<open>clear_dir\<close>: of each
  entry, what its removal left behind.
\<close>

definition clear_result ::
  "(string list \<Rightarrow> bool) \<Rightarrow> string list \<Rightarrow> (string \<times> node) list \<Rightarrow> (string \<times> node) list" where
  "clear_result d q es =
     List.map_filter (\<lambda>(k, v). map_option (Pair k) (rm_tree d (q @ [k]) v)) es"

text \<open>A placeholder token whose name the mapping does not have.\<close>

definition unresolved :: "(string \<rightharpoonup> string) \<Rightarrow> token \<Rightarrow> bool" where
  "unresolved m t = (case t of Named n \<Rightarrow> m n = None | Braced n \<Rightarrow> m n = None | _ \<Rightarrow> False)"

text \<open>A list of segments that are names: none is empty, \<open>.\<close> or \<open>..\<close>.\<close>

definition plain :: "string list \<Rightarrow> bool" where
  "plain ss = (\<forall>s\<in>set ss. s \<noteq> [] \<and> s \<noteq> ''.'' \<and> s \<noteq> ''..'')"


definition w_empty :: world where
  "w_empty = \<lparr>fs = Dir [], trace = []\<rparr>"


definition E1 :: env where
  "E1 = \<lparr>cwd = [''repo''], deny = (\<lambda>q. False),
          which = (\<lambda>s. if s = ''kicad-cli'' then Some ''/usr/bin/kicad-cli''
                        else if s = ''python3'' then Some ''/usr/bin/python3'' else None),
          now = \<lparr>year = 2025, month = 1, day = 15, hour = 13, minute = 42, second = 7\<rparr>,
          tool = (\<lambda>c r. (2, r))\<rparr>"

definition a1 :: args where
  "a1 = \<lparr>arg_project = ''CAD/demo/demo.kicad_pro'', arg_root = ''.'',
          arg_prod_dir = ''PRODUCTION'', arg_iso = False, arg_glb = True, arg_zip = False,
          arg_kikit = None, arg_skip_drc = False, arg_no_timestamp = False\<rparr>"

definition w1 :: world where
  "w1 = \<lparr>fs = Dir [(''repo'', Dir [(''CAD'', Dir [(''demo'',
                 Dir [(''demo.kicad_sch'', File ''sch''), (''demo.kicad_pcb'', File ''pcb'')])])])],
          trace = []\<rparr>"

definition w1s :: world where
  "w1s = \<lparr>fs = Dir [(''repo'',
              Dir [(''CAD'', Dir [(''demo'',
                     Dir [(''demo.kicad_sch'', File ''sch''), (''demo.kicad_pcb'', File ''pcb'')])]),
                   (''3D_MODEL'', Dir []), (''PICTURES'', Dir []), (''DOCUMENTATION'', Dir []),
                   (''PRODUCTION'', Dir [(''20250115_1342_demo'', Dir [])])])],
           trace = []\<rparr>"

definition E2 :: env where
  "E2 = E1\<lparr>tool := (\<lambda>c r.
           if drop 1 (take 4 c) = [''pcb'', ''export'', ''step'']
           then (2, modify (set_child ''demo.step'' (File ''model'')) [''repo'', ''3D_MODEL''] r)
           else if drop 1 (take 4 c) = [''pcb'', ''export'', ''glb''] then (2, r)
           else (0, r))\<rparr>"

definition is_identifier :: "string \<Rightarrow> bool" where
  "is_identifier n = (case n of [] \<Rightarrow> False | c # cs \<Rightarrow> is_id_start c \<and> (\<forall>x\<in>set cs. is_id_char x))"

definition template_text :: "env \<Rightarrow> node \<Rightarrow> path \<Rightarrow> string" where
  "template_text E r root =
     (case node_at E r (child root ''README.template.md'') of
        Some (File c) \<Rightarrow> c
      | _ \<Rightarrow> DEFAULT_README_TEMPLATE)"

definition default_readme :: "string \<Rightarrow> string \<Rightarrow> string" where
  "default_readme project_name header = concat (map (\<lambda>l. l @ [CHR 0x0A])
     [''# '' @ project_name,
      '''',
      ''![HEADER](./PICTURES/'' @ header @ '') <!-- 3D rendered pretty view -->'',
      '''',
      ''INFO INFO'',
      '''',
      ''[PCB layout](./DOCUMENTATION/'' @ project_name @ ''_board_prints.pdf) <!-- PDFs of boards -->'',
      ''[SCHEMATIC](./DOCUMENTATION/'' @ project_name @ ''_schematic.pdf) <!-- Schematic PDFs -->'',
      '''',
      ''## FRONT'',
      ''![Front](./PICTURES/'' @ project_name @ ''_top.png)'',
      '''',
      ''## BACK'',
      ''![Back](./PICTURES/'' @ project_name @ ''_bottom.png)'',
      '''',
      ''## SIDE'',
      ''![Side](./PICTURES/'' @ project_name @ ''_side.png)'',
      '''',
      ''# Before major commmits'',
      ''Remember to run generate_outputs.bat/sh'',
      ''to update the outputs and pictures.''])"

definition w_readme :: world where
  "w_readme = \<lparr>fs = Dir [(''repo'', Dir [(''README.md'', File ''my notes''),
                                          (''PICTURES'', Dir [(''demo_iso.png'', File ''png'')])])],
               trace = []\<rparr>"

definition w_pics :: world where
  "w_pics = \<lparr>fs = Dir [(''repo'', Dir [(''PICTURES'', Dir [(''demo_iso.png'', File ''png'')])])],
             trace = []\<rparr>"









section \<open>The file system: lookup and update\<close>

lemma lookup_modify: "lookup (modify f p n) p = map_option f (lookup n p)"
proof (induction p arbitrary: n)
  case Nil
  show ?case by simp
next
  case (Cons s ss)
  show ?case
    by (cases n) (auto simp: update_conv' Cons.IH split: option.splits)
qed

lemma lookup_append:
  "lookup n (p @ q) = (case lookup n p of None \<Rightarrow> None | Some m \<Rightarrow> lookup m q)"
proof (induction p arbitrary: n)
  case Nil
  show ?case by simp
next
  case (Cons s ss)
  show ?case by (cases n) (auto simp: Cons.IH split: option.splits)
qed








lemma segs_child: "segs E (child p e) = segs E p @ [e]"
  by (cases p) (simp_all add: segs_def child_def)






lemma delete_absent: "k \<notin> fst ` set es \<Longrightarrow> AList.delete k es = es"
  by (rule delete_id)





lemma clear_result_Cons:
  "clear_result d q ((k, v) # es) =
     (case rm_tree d (q @ [k]) v of None \<Rightarrow> clear_result d q es
      | Some v' \<Rightarrow> (k, v') # clear_result d q es)"
  by (simp add: clear_result_def List.map_filter_simps split: option.splits)

lemma clear_result_keys: "fst ` set (clear_result d q es) \<subseteq> fst ` set es"
  by (induction es) (auto simp: clear_result_Cons clear_result_def List.map_filter_simps
      split: option.splits)


lemma plain_append: "plain ss \<Longrightarrow>
   foldl (\<lambda>acc s. if s = ''..'' then butlast acc
                   else if s = ''.'' \<or> s = [] then acc else acc @ [s]) acc ss = acc @ ss"
  by (induction ss arbitrary: acc) (auto simp: plain_def)

lemma normalise_plain: "plain ss \<Longrightarrow> normalise ss = ss"
  using plain_append [of ss "[]"] by (simp add: normalise_def)

lemma resolve_plain: "plain (segs E p) \<Longrightarrow> parts (resolve E p) = ''/'' # segs E p"
  by (simp add: resolve_def segs_def normalise_plain)

section \<open>Sequencing\<close>

lemma bind_Inl: "m w = (Inl e, w') \<Longrightarrow> bind m f w = (Inl e, w')"
  by (simp add: bind_def)

lemma bind_Inr: "m w = (Inr x, w') \<Longrightarrow> bind m f w = f x w'"
  by (simp add: bind_def)





section \<open>Clearing a directory: the guard and the best-effort loop\<close>




section \<open>The 3D export step\<close>

lemma run_unfold:
  "tool E cmd (fs w) = (rc, r) \<Longrightarrow>
   run E cmd oks w =
     (if rc \<in> set oks then Inr () else Inl (RuntimeError (''Command failed with code '' @ show_int rc)),
      w\<lparr>fs := r, trace := trace w @ [Ran cmd]\<rparr>)"
  by (simp add: run_def)

lemma export_3d_unfold:
  assumes mk: "mkdirs (fs w) (segs E out_dir) = Some r1"
    and tl: "tool E (step_cmd kicad (div_str out_dir (stem pcb_path @ ''.step'')) pcb_path) r1 = (rc, r2)"
  shows "export_3d E kicad pcb_path out_dir make_glb w =
    (let step_out = div_str out_dir (stem pcb_path @ ''.step'');
         w2 = w\<lparr>fs := r2, trace := trace w @ [Ran (step_cmd kicad step_out pcb_path)]\<rparr>
     in if rc \<noteq> 0 \<and> rc \<noteq> 2
        then (Inl (RuntimeError (''Command failed with code '' @ show_int rc)), w2)
        else if \<not> exists E r2 step_out
        then (Inl (RuntimeError ''STEP export did not produce a file.''), w2)
        else if make_glb
        then bind (run E (glb_cmd kicad (div_str out_dir (stem pcb_path @ ''.glb'')) pcb_path) [0, 2])
               (\<lambda>_. ret step_out) w2
        else (Inr step_out, w2))"
proof -
  have e: "ensure_dir E out_dir w = (Inr out_dir, w\<lparr>fs := r1\<rparr>)"
    by (simp add: ensure_dir_def bind_def mkdir_p_def mk ret_def)
  have r: "run E (step_cmd kicad (div_str out_dir (stem pcb_path @ ''.step'')) pcb_path) [0, 2] (w\<lparr>fs := r1\<rparr>) =
     (if rc \<in> set [0, 2] then Inr () else Inl (RuntimeError (''Command failed with code '' @ show_int rc)),
      w\<lparr>fs := r2, trace := trace w @ [Ran (step_cmd kicad (div_str out_dir (stem pcb_path @ ''.step'')) pcb_path)]\<rparr>)"
    using run_unfold [of E _ "w\<lparr>fs := r1\<rparr>" rc r2 "[0, 2]"] tl by simp
  show ?thesis
    unfolding export_3d_def
    by (simp add: bind_def [of "ensure_dir E out_dir"] bind_def [of "run E c oks" for c oks] e r Let_def)
qed

text \<open>
  Claim C5. The STEP command is run with the exit codes 0 and 2 accepted; any other code
  is an error. After an accepted exit the step checks that the STEP file exists: when it
  does not, the step fails, and so does the run, in the state the STEP command left: the
  STEP command is the last thing the run has executed.
\<close>

theorem step_export_needs_file:
  assumes st: "main_setup E a w0 =
      (Inr (kicad, proj_stem, sch_path, pcb_path, root, three_d_dir, pics_dir, docs_dir, prod_root), w)"
    and mk: "mkdirs (fs w) (segs E three_d_dir) = Some r1"
    and tl: "tool E (step_cmd kicad (div_str three_d_dir (stem pcb_path @ ''.step'')) pcb_path) r1 = (rc, r2)"
  shows "let step_out = div_str three_d_dir (stem pcb_path @ ''.step'');
             w2 = w\<lparr>fs := r2, trace := trace w @ [Ran (step_cmd kicad step_out pcb_path)]\<rparr>
         in (rc \<noteq> 0 \<and> rc \<noteq> 2 \<longrightarrow>
               export_3d E kicad pcb_path three_d_dir make_glb w =
                 (Inl (RuntimeError (''Command failed with code '' @ show_int rc)), w2)) \<and>
            ((rc = 0 \<or> rc = 2) \<and> exists E r2 step_out \<and> \<not> make_glb \<longrightarrow>
               export_3d E kicad pcb_path three_d_dir make_glb w = (Inr step_out, w2)) \<and>
            ((rc = 0 \<or> rc = 2) \<and> \<not> exists E r2 step_out \<longrightarrow>
               export_3d E kicad pcb_path three_d_dir make_glb w =
                 (Inl (RuntimeError ''STEP export did not produce a file.''), w2) \<and>
               main E a w0 = (Inl (RuntimeError ''STEP export did not produce a file.''), w2))"
proof -
  note ex = export_3d_unfold [OF mk tl]
  have m: "main E a w0 = (Inl (RuntimeError ''STEP export did not produce a file.''),
             w\<lparr>fs := r2, trace := trace w @
               [Ran (step_cmd kicad (div_str three_d_dir (stem pcb_path @ ''.step'')) pcb_path)]\<rparr>)"
    if "rc = 0 \<or> rc = 2" "\<not> exists E r2 (div_str three_d_dir (stem pcb_path @ ''.step''))"
  proof -
    have "export_3d E kicad pcb_path three_d_dir (arg_glb a) w =
       (Inl (RuntimeError ''STEP export did not produce a file.''),
             w\<lparr>fs := r2, trace := trace w @
               [Ran (step_cmd kicad (div_str three_d_dir (stem pcb_path @ ''.step'')) pcb_path)]\<rparr>)"
      using that by (auto simp: ex Let_def)
    then show ?thesis
      unfolding main_def
      by (simp add: bind_def [of "main_setup E a"] st bind_Inl)
  qed
  show ?thesis
    using m by (auto simp: ex Let_def)
qed

text \<open>The theorem on a run whose tool always exits with code 2 and writes nothing.\<close>

theorem step_export_needs_file_witness:
  "main_setup E1 a1 w1 =
     (Inr (''/usr/bin/kicad-cli'', ''demo'', Rel [''CAD'', ''demo'', ''demo.kicad_sch''],
           Rel [''CAD'', ''demo'', ''demo.kicad_pcb''], Abs [''repo''],
           Abs [''repo'', ''3D_MODEL''], Abs [''repo'', ''PICTURES''],
           Abs [''repo'', ''DOCUMENTATION''],
           Abs [''repo'', ''PRODUCTION'', ''20250115_1342_demo'']), w1s) \<and>
   tool E1 (step_cmd ''/usr/bin/kicad-cli'' (Abs [''repo'', ''3D_MODEL'', ''demo.step''])
              (Rel [''CAD'', ''demo'', ''demo.kicad_pcb''])) (fs w1s) = (2, fs w1s) \<and>
   main E1 a1 w1 =
     (Inl (RuntimeError ''STEP export did not produce a file.''),
      w1s\<lparr>trace := [Ran [''/usr/bin/kicad-cli'', ''pcb'', ''export'', ''step'',
                           ''--subst-models'', ''-o'', ''/repo/3D_MODEL/demo.step'',
                           ''CAD/demo/demo.kicad_pcb'']]\<rparr>)"
proof -
  let ?pcb = "Rel [''CAD'', ''demo'', ''demo.kicad_pcb'']"
  let ?out = "Abs [''repo'', ''3D_MODEL'']"
  have so: "div_str ?out (stem ?pcb @ ''.step'') = Abs [''repo'', ''3D_MODEL'', ''demo.step'']"
    by code_simp
  have st: "main_setup E1 a1 w1 =
     (Inr (''/usr/bin/kicad-cli'', ''demo'', Rel [''CAD'', ''demo'', ''demo.kicad_sch''],
           ?pcb, Abs [''repo''], ?out, Abs [''repo'', ''PICTURES''],
           Abs [''repo'', ''DOCUMENTATION''],
           Abs [''repo'', ''PRODUCTION'', ''20250115_1342_demo'']), w1s)"
    by code_simp
  have mk: "mkdirs (fs w1s) (segs E1 ?out) = Some (fs w1s)"
    by code_simp
  have tl: "tool E1 (step_cmd ''/usr/bin/kicad-cli'' (div_str ?out (stem ?pcb @ ''.step'')) ?pcb) (fs w1s) = (2, fs w1s)"
    by (simp add: E1_def)
  have nx: "\<not> exists E1 (fs w1s) (div_str ?out (stem ?pcb @ ''.step''))"
    by code_simp
  from step_export_needs_file [OF st mk tl, of True] nx
  have "main E1 a1 w1 = (Inl (RuntimeError ''STEP export did not produce a file.''),
      w1s\<lparr>fs := fs w1s, trace := trace w1s @
        [Ran (step_cmd ''/usr/bin/kicad-cli'' (div_str ?out (stem ?pcb @ ''.step'')) ?pcb)]\<rparr>)"
    by (simp add: Let_def)
  then have "main E1 a1 w1 =
     (Inl (RuntimeError ''STEP export did not produce a file.''),
      w1s\<lparr>trace := [Ran [''/usr/bin/kicad-cli'', ''pcb'', ''export'', ''step'',
                           ''--subst-models'', ''-o'', ''/repo/3D_MODEL/demo.step'',
                           ''CAD/demo/demo.kicad_pcb'']]\<rparr>)"
    by (simp add: so step_cmd_def w1s_def)
  with st tl so show ?thesis by simp
qed

text \<open>
  Claim C10. With the GLB export requested, the GLB command is run after the STEP file
  has been checked, again with the exit codes 0 and 2 accepted, and nothing is checked
  afterwards: the step returns the STEP path whatever the GLB command left on disk.
\<close>

theorem glb_export_not_verified:
  assumes mk: "mkdirs (fs w) (segs E out_dir) = Some r1"
    and tl: "tool E (step_cmd kicad (div_str out_dir (stem pcb_path @ ''.step'')) pcb_path) r1 = (rc, r2)"
    and ok: "rc = 0 \<or> rc = 2"
    and ex: "exists E r2 (div_str out_dir (stem pcb_path @ ''.step''))"
    and tg: "tool E (glb_cmd kicad (div_str out_dir (stem pcb_path @ ''.glb'')) pcb_path) r2 = (rc', r3)"
  shows "export_3d E kicad pcb_path out_dir True w =
     (if rc' = 0 \<or> rc' = 2 then Inr (div_str out_dir (stem pcb_path @ ''.step''))
      else Inl (RuntimeError (''Command failed with code '' @ show_int rc')),
      w\<lparr>fs := r3,
        trace := trace w @
          [Ran (step_cmd kicad (div_str out_dir (stem pcb_path @ ''.step'')) pcb_path),
           Ran (glb_cmd kicad (div_str out_dir (stem pcb_path @ ''.glb'')) pcb_path)]\<rparr>)"
  using ok ex tg
  by (auto simp: export_3d_unfold [OF mk tl] Let_def bind_def run_def ret_def)

text \<open>
  The theorem on a tool that writes the STEP file and exits with code 2 from the GLB
  command without writing a file: the step returns, and the whole run succeeds.
\<close>

theorem glb_export_not_verified_witness:
  "\<not> exists E2 (fs (snd (export_3d E2 ''kicad-cli'' (Rel [''demo.kicad_pcb''])
                           (Abs [''repo'', ''3D_MODEL'']) True w1s)))
       (Abs [''repo'', ''3D_MODEL'', ''demo.glb'']) \<and>
   fst (export_3d E2 ''kicad-cli'' (Rel [''demo.kicad_pcb'']) (Abs [''repo'', ''3D_MODEL'']) True w1s) =
     Inr (Abs [''repo'', ''3D_MODEL'', ''demo.step'']) \<and>
   fst (main E2 a1 w1) = Inr ()"
proof -
  let ?pcb = "Rel [''demo.kicad_pcb'']"
  let ?out = "Abs [''repo'', ''3D_MODEL'']"
  let ?r2 = "modify (set_child ''demo.step'' (File ''model'')) [''repo'', ''3D_MODEL''] (fs w1s)"
  have so: "div_str ?out (stem ?pcb @ ''.step'') = Abs [''repo'', ''3D_MODEL'', ''demo.step'']"
    by code_simp
  have go: "div_str ?out (stem ?pcb @ ''.glb'') = Abs [''repo'', ''3D_MODEL'', ''demo.glb'']"
    by code_simp
  have mk: "mkdirs (fs w1s) (segs E2 ?out) = Some (fs w1s)"
    by code_simp
  have tl: "tool E2 (step_cmd ''kicad-cli'' (div_str ?out (stem ?pcb @ ''.step'')) ?pcb) (fs w1s) = (2, ?r2)"
    by (simp add: E2_def step_cmd_def)
  have ex: "exists E2 ?r2 (div_str ?out (stem ?pcb @ ''.step''))"
    by code_simp
  have tg: "tool E2 (glb_cmd ''kicad-cli'' (div_str ?out (stem ?pcb @ ''.glb'')) ?pcb) ?r2 = (2, ?r2)"
    by (simp add: E2_def glb_cmd_def)
  have nx: "\<not> exists E2 ?r2 (Abs [''repo'', ''3D_MODEL'', ''demo.glb''])"
    by code_simp
  have run: "fst (main E2 a1 w1) = Inr ()"
    by code_simp
  from glb_export_not_verified [OF mk tl _ ex tg] nx run so
  show ?thesis by simp
qed

section \<open>Template substitution and the summary document\<close>

lemma scan_text: "concat (map token_text (scan s)) = s"
proof (induction s rule: scan.induct)
  case 1
  show ?case by simp
next
  case (2 c cs)
  show ?case
  proof (cases "c = CHR ''$''")
    case False
    with 2 show ?thesis by simp
  next
    case True
    note dollar = True
    show ?thesis
    proof (cases cs)
      case Nil
      with dollar show ?thesis by simp
    next
      case (Cons d ds)
      note cs = Cons
      consider (esc) "d = CHR ''$''"
        | (named) "d \<noteq> CHR ''$''" "is_id_start d"
        | (braced) x rest where "d \<noteq> CHR ''$''" "\<not> is_id_start d" "d = CHR ''{''"
            "case ds of [] \<Rightarrow> False | e # _ \<Rightarrow> is_id_start e"
            "dropWhile is_id_char ds = x # rest" "x = CHR ''}''"
        | (invalid) "d \<noteq> CHR ''$''" "\<not> is_id_start d"
            "\<not> (d = CHR ''{'' \<and> (case ds of [] \<Rightarrow> False | e # _ \<Rightarrow> is_id_start e) \<and>
               (\<exists>rest. dropWhile is_id_char ds = CHR ''}'' # rest))"
        by (cases "dropWhile is_id_char ds") auto
      then show ?thesis
      proof cases
        case esc
        with 2 dollar cs show ?thesis by simp
      next
        case named
        have ih: "concat (map token_text (scan (dropWhile is_id_char cs))) = dropWhile is_id_char cs"
          using 2(3) dollar cs named by simp
        have "takeWhile is_id_char cs @ dropWhile is_id_char cs = cs" by simp
        moreover have "scan (c # cs) = Named (takeWhile is_id_char cs) # scan (dropWhile is_id_char cs)"
          using dollar cs named by simp
        ultimately show ?thesis using dollar ih by simp
      next
        case braced
        have "takeWhile is_id_char ds @ dropWhile is_id_char ds = ds" by simp
        then have "takeWhile is_id_char ds @ CHR ''}'' # rest = ds"
          using braced by simp
        moreover have ih: "concat (map token_text (scan rest)) = rest"
          using 2(5) dollar cs braced by simp
        moreover have "scan (c # cs) = Braced (takeWhile is_id_char ds) # scan rest"
          using dollar cs braced by simp
        ultimately show ?thesis using dollar cs braced(3) by auto
      next
        case invalid
        have sc: "scan (c # cs) = Invalid # scan cs"
          using dollar cs invalid by (auto split: list.splits)
        have "concat (map token_text (scan cs)) = cs"
        proof (cases "d = CHR ''{'' \<and> (case ds of [] \<Rightarrow> False | e # _ \<Rightarrow> is_id_start e)")
          case False
          from 2(7) [OF _ cs invalid(1,2) False] dollar show ?thesis by blast
        next
          case True
          note br = True
          show ?thesis
          proof (cases "dropWhile is_id_char ds")
            case Nil
            from 2(4) [OF _ cs invalid(1,2) br Nil] dollar show ?thesis by blast
          next
            case (Cons x rest)
            with invalid(3) br have "x \<noteq> CHR ''}''" by auto
            from 2(6) [OF _ cs invalid(1,2) br Cons this] dollar show ?thesis by blast
          qed
        qed
        with sc dollar show ?thesis by simp
      qed
    qed
  qed
qed

lemma default_template_rendered:
  "safe_substitute DEFAULT_README_TEMPLATE (readme_subs p h) = default_readme p h"
  by (simp add: safe_substitute_def DEFAULT_README_TEMPLATE_def readme_subs_def default_readme_def
      is_id_start_def is_id_char_def ascii_lower_def ascii_upper_def ascii_digits_def)

lemma scan_no_dollar: "CHR ''$'' \<notin> set pre \<Longrightarrow> scan (pre @ rest) = map Lit pre @ scan rest"
  by (induction pre) auto

lemma not_id_brace: "\<not> is_id_char CHR ''}''" "\<not> is_id_start CHR ''{''"
  by (simp_all add: is_id_char_def is_id_start_def ascii_lower_def ascii_upper_def ascii_digits_def)

lemma id_start_char: "is_id_start c \<Longrightarrow> is_id_char c"
  by (simp add: is_id_char_def)

lemma scan_braced:
  assumes "is_identifier n"
  shows "scan (''${'' @ n @ ''}'' @ post) = Braced n # scan post"
proof -
  from assms obtain c cs where n: "n = c # cs" "is_id_start c" "\<forall>x\<in>set cs. is_id_char x"
    by (auto simp: is_identifier_def split: list.splits)
  then have all: "\<forall>x\<in>set n. is_id_char x" by (auto simp: id_start_char)
  have d: "dropWhile is_id_char (n @ CHR ''}'' # post) = CHR ''}'' # post"
    using all by (simp add: dropWhile_append3 not_id_brace)
  have t: "takeWhile is_id_char (n @ CHR ''}'' # post) = n"
    using all by (simp add: takeWhile_append2 not_id_brace)
  show ?thesis
    using n(1,2) d t by (simp add: not_id_brace)
qed

lemma render_literal:
  "t \<noteq> Escaped \<Longrightarrow> (\<forall>n. t = Named n \<or> t = Braced n \<longrightarrow> m n = None) \<Longrightarrow> render m t = token_text t"
  by (cases t) auto

lemma render_unresolved: "unresolved m t \<Longrightarrow> render m t = token_text t"
  by (cases t) (auto simp: unresolved_def)

lemma render_cases:
  "render m t = (if unresolved m t then token_text t else render m t)"
  by (simp add: render_unresolved)

text \<open>
  Claim C9. \<open>safe_substitute\<close> is a total function to strings: no placeholder makes
  it fail. The tokens of a template spell the template, and the output is the template
  token by token, in order, with the text of every placeholder whose name the mapping
  does not have copied as it stands: wherever such a placeholder stands in the template,
  the output is the substitution of what precedes it, the placeholder's own text, and the
  substitution of what follows it. So a template whose placeholders are all unresolved and
  that has no \<open>$$\<close> comes out unchanged, and an unresolved \<open>${name}\<close> after
  dollar-free text is copied to the output.
\<close>

theorem safe_substitute_keeps_unresolved:
  "concat (map token_text (scan tpl)) = tpl \<and>
   safe_substitute tpl subs =
     concat (map (\<lambda>t. if unresolved (map_of subs) t then token_text t
                      else render (map_of subs) t) (scan tpl)) \<and>
   (\<forall>ts t us. scan tpl = ts @ t # us \<and> unresolved (map_of subs) t \<longrightarrow>
       tpl = concat (map token_text ts) @ token_text t @ concat (map token_text us) \<and>
       safe_substitute tpl subs =
         concat (map (render (map_of subs)) ts) @ token_text t @
         concat (map (render (map_of subs)) us)) \<and>
   ((\<forall>t\<in>set (scan tpl). t \<noteq> Escaped \<and> (\<forall>n. t = Named n \<or> t = Braced n \<longrightarrow> map_of subs n = None)) \<longrightarrow>
       safe_substitute tpl subs = tpl) \<and>
   (CHR ''$'' \<notin> set pre \<and> is_identifier n \<and> map_of subs n = None \<longrightarrow>
       safe_substitute (pre @ ''${'' @ n @ ''}'' @ post) subs =
         pre @ ''${'' @ n @ ''}'' @ safe_substitute post subs)"
proof (intro conjI impI allI)
  show "concat (map token_text (scan tpl)) = tpl" by (rule scan_text)
next
  have "map (render (map_of subs)) (scan tpl) =
        map (\<lambda>t. if unresolved (map_of subs) t then token_text t
                 else render (map_of subs) t) (scan tpl)"
    by (rule map_cong [OF refl]) (rule render_cases)
  then show "safe_substitute tpl subs =
     concat (map (\<lambda>t. if unresolved (map_of subs) t then token_text t
                      else render (map_of subs) t) (scan tpl))"
    by (simp only: safe_substitute_def)
next
  fix ts t us
  assume a: "scan tpl = ts @ t # us \<and> unresolved (map_of subs) t"
  have "concat (map token_text (ts @ t # us)) = tpl"
    using scan_text [of tpl] a by simp
  then show "tpl = concat (map token_text ts) @ token_text t @ concat (map token_text us)"
    by simp
  show "safe_substitute tpl subs =
         concat (map (render (map_of subs)) ts) @ token_text t @
         concat (map (render (map_of subs)) us)"
    using a by (simp add: safe_substitute_def render_unresolved)
next
  assume a: "\<forall>t\<in>set (scan tpl). t \<noteq> Escaped \<and> (\<forall>n. t = Named n \<or> t = Braced n \<longrightarrow> map_of subs n = None)"
  have "map (render (map_of subs)) (scan tpl) = map token_text (scan tpl)"
    by (rule map_cong [OF refl]) (use a in \<open>simp add: render_literal\<close>)
  then have "concat (map (render (map_of subs)) (scan tpl)) = concat (map token_text (scan tpl))"
    by (rule arg_cong)
  then show "safe_substitute tpl subs = tpl"
    by (simp only: safe_substitute_def scan_text)
next
  assume a: "CHR ''$'' \<notin> set pre \<and> is_identifier n \<and> map_of subs n = None"
  then have "scan (pre @ ''${'' @ n @ ''}'' @ post) = map Lit pre @ Braced n # scan post"
    using scan_no_dollar [of pre "''${'' @ n @ ''}'' @ post"] scan_braced [of n post] by simp
  moreover have "concat (map (render (map_of subs)) (map Lit pre)) = pre"
    by (induction pre) auto
  ultimately show "safe_substitute (pre @ ''${'' @ n @ ''}'' @ post) subs =
         pre @ ''${'' @ n @ ''}'' @ safe_substitute post subs"
    using a by (simp add: safe_substitute_def)
qed

text \<open>
  The theorem on \<open>${PROJECT_NAME}: ${WHO} and $who\<close>, where only the first
  placeholder has a value.
\<close>

theorem safe_substitute_keeps_unresolved_witness:
  "scan ''${PROJECT_NAME}: ${WHO} and $who'' =
     [Braced ''PROJECT_NAME'', Lit CHR '':'', Lit CHR '' ''] @ Braced ''WHO'' #
     [Lit CHR '' '', Lit CHR ''a'', Lit CHR ''n'', Lit CHR ''d'', Lit CHR '' '', Named ''who''] \<and>
   unresolved (map_of (readme_subs ''demo'' ''demo_top.png'')) (Braced ''WHO'') \<and>
   safe_substitute ''${PROJECT_NAME}: ${WHO} and $who'' (readme_subs ''demo'' ''demo_top.png'') =
     ''demo: ${WHO} and $who''"
proof -
  let ?tpl = "''${PROJECT_NAME}: ${WHO} and $who''"
  let ?subs = "readme_subs ''demo'' ''demo_top.png''"
  let ?ts = "[Braced ''PROJECT_NAME'', Lit CHR '':'', Lit CHR '' '']"
  let ?us = "[Lit CHR '' '', Lit CHR ''a'', Lit CHR ''n'', Lit CHR ''d'', Lit CHR '' '', Named ''who'']"
  have sc: "scan ?tpl = ?ts @ Braced ''WHO'' # ?us" by code_simp
  have un: "unresolved (map_of ?subs) (Braced ''WHO'')" by code_simp
  have pre: "concat (map (render (map_of ?subs)) ?ts) = ''demo: ''" by code_simp
  have post: "concat (map (render (map_of ?subs)) ?us) = '' and $who''" by code_simp
  from safe_substitute_keeps_unresolved [of ?tpl ?subs] sc un
  have "safe_substitute ?tpl ?subs =
         concat (map (render (map_of ?subs)) ?ts) @ token_text (Braced ''WHO'') @
         concat (map (render (map_of ?subs)) ?us)"
    by blast
  then have "safe_substitute ?tpl ?subs = ''demo: ${WHO} and $who''"
    by (simp only: pre post) simp
  with sc un show ?thesis by blast
qed

text \<open>
  Claim C6. When \<open>README.md\<close> exists at the root, \<open>render_readme_if_missing\<close>
  returns its path and leaves the whole state as it was, however often it is repeated.
\<close>

theorem readme_kept_when_present:
  assumes "exists E (fs w) (child root ''README.md'')"
  shows "render_readme_if_missing E root project_name w = (Inr (child root ''README.md''), w) \<and>
         ((\<lambda>v. snd (render_readme_if_missing E root project_name v)) ^^ k) w = w"
proof -
  have one: "render_readme_if_missing E root project_name w = (Inr (child root ''README.md''), w)"
    using assms by (simp add: render_readme_if_missing_def)
  have "((\<lambda>v. snd (render_readme_if_missing E root project_name v)) ^^ k) w = w"
    by (induction k) (simp_all add: one)
  with one show ?thesis by simp
qed

text \<open>Three runs over a root whose \<open>README.md\<close> holds the user's notes.\<close>

theorem readme_kept_when_present_witness:
  "exists E1 (fs w_readme) (child (Abs [''repo'']) ''README.md'') \<and>
   render_readme_if_missing E1 (Abs [''repo'']) ''demo'' w_readme =
     (Inr (Abs [''repo'', ''README.md'']), w_readme) \<and>
   node_at E1 (fs (((\<lambda>v. snd (render_readme_if_missing E1 (Abs [''repo'']) ''demo'' v)) ^^ 3) w_readme))
     (Abs [''repo'', ''README.md'']) = Some (File ''my notes'')"
proof -
  have e: "exists E1 (fs w_readme) (child (Abs [''repo'']) ''README.md'')" by code_simp
  have n: "node_at E1 (fs w_readme) (Abs [''repo'', ''README.md'']) = Some (File ''my notes'')"
    by code_simp
  from readme_kept_when_present [OF e, of "''demo''" 3] e n
  show ?thesis by (simp add: child_def)
qed

lemma node_at_written:
  assumes "lookup r (segs E p) = Some (Dir es)"
  shows "node_at E (modify (set_child s c) (segs E p) r) (child p s) = Some c"
  using assms
  by (simp add: node_at_def segs_child lookup_append lookup_modify set_child_def update_conv')

text \<open>
  Claim C7. When \<open>README.md\<close> does not exist (and the root is a directory and the
  template path is not one), the document is written from the template with
  \<open>HEADER_IMAGE\<close> bound to \<open><project>_iso.png\<close> if that file exists in
  \<open>PICTURES\<close> at that moment, and to \<open><project>_top.png\<close> otherwise; with the
  built-in template the document is \<open>default_readme\<close> with that header image.
\<close>

theorem readme_header_image:
  assumes nr: "\<not> exists E (fs w) (child root ''README.md'')"
    and rd: "is_dir E (fs w) root"
    and nt: "\<not> is_dir E (fs w) (child root ''README.template.md'')"
  shows "\<exists>w'. render_readme_if_missing E root project_name w = (Inr (child root ''README.md''), w') \<and>
      node_at E (fs w') (child root ''README.md'') =
        Some (File (safe_substitute (template_text E (fs w) root)
                      (readme_subs project_name (header_image E (fs w) root project_name)))) \<and>
      map_of (readme_subs project_name (header_image E (fs w) root project_name)) ''HEADER_IMAGE'' =
        Some (if exists E (fs w) (div_str (child root ''PICTURES'') (project_name @ ''_iso.png''))
              then project_name @ ''_iso.png'' else project_name @ ''_top.png'') \<and>
      (\<not> exists E (fs w) (child root ''README.template.md'') \<longrightarrow>
         node_at E (fs w') (child root ''README.md'') =
           Some (File (default_readme project_name
              (if exists E (fs w) (div_str (child root ''PICTURES'') (project_name @ ''_iso.png''))
               then project_name @ ''_iso.png'' else project_name @ ''_top.png''))))"
proof -
  let ?tp = "child root ''README.template.md''"
  let ?h = "header_image E (fs w) root project_name"
  let ?txt = "safe_substitute (template_text E (fs w) root) (readme_subs project_name ?h)"
  from rd obtain es where es: "lookup (fs w) (segs E root) = Some (Dir es)"
    by (auto simp: is_dir_def node_at_def split: option.splits node.splits)
  have tpl: "(if exists E (fs w) ?tp then read_text_flexible E ?tp
              else ret DEFAULT_README_TEMPLATE) w = (Inr (template_text E (fs w) root), w)"
    using nt
    by (auto simp: exists_def is_file_def is_dir_def read_text_flexible_def template_text_def ret_def
        split: option.splits node.splits)
  have nd: "\<not> is_dir E (fs w) (child root ''README.md'')"
    using nr by (simp add: exists_def)
  have wr: "write_text E (child root ''README.md'') ?txt w =
      (Inr (), w\<lparr>fs := modify (set_child ''README.md'' (File ?txt)) (segs E root) (fs w)\<rparr>)"
    using nd es by (simp add: write_text_def segs_child)
  have res: "render_readme_if_missing E root project_name w =
      (Inr (child root ''README.md''),
       w\<lparr>fs := modify (set_child ''README.md'' (File ?txt)) (segs E root) (fs w)\<rparr>)"
    using nr by (simp add: render_readme_if_missing_def bind_def tpl wr ret_def)
  have at: "node_at E (modify (set_child ''README.md'' (File ?txt)) (segs E root) (fs w))
              (child root ''README.md'') = Some (File ?txt)"
    by (rule node_at_written [OF es])
  have hd: "map_of (readme_subs project_name ?h) ''HEADER_IMAGE'' = Some ?h"
    by (simp add: readme_subs_def)
  have dflt: "?txt = default_readme project_name ?h" if "\<not> exists E (fs w) ?tp"
  proof -
    from that have "template_text E (fs w) root = DEFAULT_README_TEMPLATE"
      by (auto simp: template_text_def exists_def is_file_def split: option.splits node.splits)
    then show ?thesis by (simp add: default_template_rendered)
  qed
  show ?thesis
    using res at hd dflt by (auto simp: header_image_def)
qed

text \<open>
  A root with \<open>PICTURES/demo_iso.png\<close> and no \<open>README.md\<close>; in the empty
  file system the root is missing and nothing is written.
\<close>

theorem readme_header_image_witness:
  "\<not> exists E1 (fs w_pics) (child (Abs [''repo'']) ''README.md'') \<and>
   is_dir E1 (fs w_pics) (Abs [''repo'']) \<and>
   exists E1 (fs w_pics) (div_str (child (Abs [''repo'']) ''PICTURES'') (''demo'' @ ''_iso.png'')) \<and>
   node_at E1 (fs (snd (render_readme_if_missing E1 (Abs [''repo'']) ''demo'' w_pics)))
      (child (Abs [''repo'']) ''README.md'') =
     Some (File (default_readme ''demo'' ''demo_iso.png'')) \<and>
   node_at E1 (fs (snd (render_readme_if_missing E1 (Abs [''repo'']) ''demo'' w_empty)))
      (child (Abs [''repo'']) ''README.md'') = None"
proof -
  let ?root = "Abs [''repo'']"
  have nr: "\<not> exists E1 (fs w_pics) (child ?root ''README.md'')" by code_simp
  have rd: "is_dir E1 (fs w_pics) ?root" by code_simp
  have nt: "\<not> is_dir E1 (fs w_pics) (child ?root ''README.template.md'')" by code_simp
  have ne: "\<not> exists E1 (fs w_pics) (child ?root ''README.template.md'')" by code_simp
  have iso: "exists E1 (fs w_pics) (div_str (child ?root ''PICTURES'') (''demo'' @ ''_iso.png''))"
    by code_simp
  have none: "node_at E1 (fs (snd (render_readme_if_missing E1 ?root ''demo'' w_empty)))
      (child ?root ''README.md'') = None" by code_simp
  from readme_header_image [OF nr rd nt, of "''demo''"] ne iso
  have "node_at E1 (fs (snd (render_readme_if_missing E1 ?root ''demo'' w_pics)))
      (child ?root ''README.md'') = Some (File (default_readme ''demo'' ''demo_iso.png''))"
    by auto
  with nr rd iso none show ?thesis by blast
qed

section \<open>The production folder\<close>























end
